theory Spec2Isabelle
  imports Complex_Main "HOL-Library.Word"
begin

section \<open>The codec layer of hub/core/compression.py\<close>

text \<open>
  A shallow embedding of the functions of \<^verbatim>\<open>src/hub/core/compression.py\<close>.
  Python names that start with an underscore lose it (\<^verbatim>\<open>_open_video\<close> is
  \<open>open_video\<close>). Every \<^verbatim>\<open>raise\<close> and every failing \<^verbatim>\<open>assert\<close> is a
  value \<open>Inl e\<close> of the result type \<open>error + 'a\<close>.
\<close>

subsection \<open>Bytes, errors, arrays\<close>

type_synonym byte = "8 word"
type_synonym bytes = "byte list"

datatype error =
    SampleCompressionError "nat list" "string option" string
  | SampleDecompressionError
  | UnsupportedCompressionError "string option"
  | CorruptedSampleError "string option"
  | ModuleNotFoundError string
  | NotImplementedError string
  | ValueError string
  | IndexError string
  | KeyError string
  | TypeError string
  | OSError string
  | AssertionError
  | StructError
  | ZeroDivisionError
  | PermissionError
  | PlainException
  | CodecError string

text \<open>
  A numpy dtype object: its type string and its item size in bytes. An array is its
  shape, its dtype and its C-contiguous buffer, which is what \<^verbatim>\<open>tobytes\<close> returns
  and what \<^verbatim>\<open>np.frombuffer\<close> reads.
\<close>

datatype np_dtype = DType (typestr: string) (itemsize: nat)

record ndarray =
  shape :: "nat list"
  dtype :: np_dtype
  data :: bytes


definition tobytes :: "ndarray \<Rightarrow> bytes" where
  "tobytes a = data a"

definition float64 :: np_dtype where
  "float64 = DType ''<f8'' 8"

text \<open>\<^verbatim>\<open>np.zeros(shape, dtype=dtype)\<close>; numpy's default dtype is float64.\<close>

definition np_zeros :: "nat list \<Rightarrow> np_dtype option \<Rightarrow> ndarray" where
  "np_zeros sh dt =
     (let d = (case dt of None \<Rightarrow> float64 | Some d' \<Rightarrow> d')
      in \<lparr>shape = sh, dtype = d, data = replicate (prod_list sh * itemsize d) 0\<rparr>)"

text \<open>
  \<^verbatim>\<open>np.frombuffer(buf, dtype=dtype).reshape(shape)\<close>: numpy raises ValueError when
  the buffer is not a whole number of items, and when the item count is not the
  product of the shape.
\<close>

definition frombuffer_reshape :: "bytes \<Rightarrow> np_dtype \<Rightarrow> nat list \<Rightarrow> error + ndarray" where
  "frombuffer_reshape buf dt sh =
     (if itemsize dt = 0 then Inl (ValueError ''itemsize cannot be zero in type'')
      else if length buf mod itemsize dt \<noteq> 0
        then Inl (ValueError ''buffer size must be a multiple of element size'')
      else if length buf div itemsize dt \<noteq> prod_list sh
        then Inl (ValueError ''cannot reshape array'')
      else Inr \<lparr>shape = sh, dtype = dt, data = buf\<rparr>)"

text \<open>\<^verbatim>\<open>arr.reshape(shape)\<close>.\<close>

definition reshape :: "ndarray \<Rightarrow> nat list \<Rightarrow> error + ndarray" where
  "reshape arr sh =
     (if prod_list sh = prod_list (shape arr) then Inr (arr\<lparr>shape := sh\<rparr>)
      else Inl (ValueError ''cannot reshape array''))"

subsection \<open>External collaborators\<close>

text \<open>
  A sample handed to a decoder is a byte buffer (bytes or a memoryview of them) or a
  str holding a file path.
\<close>

datatype source = Buffer bytes | Path string

text \<open>A PIL image, known here by the array it was made from.\<close>

datatype image = Image_of ndarray

text \<open>Modelled from the spec: the CompressionTypeTag of the classifier
  (\<^verbatim>\<open>hub.compression\<close> is not under src/).\<close>

datatype compression_type =
  NO_COMPRESSION | BYTE_COMPRESSION | IMAGE_COMPRESSION | AUDIO_COMPRESSION | VIDEO_COMPRESSION

record raw_audio =
  samples :: bytes
  num_frames :: nat
  nchannels :: nat

text \<open>A video stream, a demuxed packet and a container of PyAV.\<close>

record vstream =
  vduration :: "int option"
  vframes :: int
  guessed_rate :: "int \<times> int"
  time_base :: "int \<times> int"
  vheight :: nat
  vwidth :: nat
  gop_size :: int

record packet =
  pts :: "int option"
  decoded :: "ndarray list"

record container =
  streams_video :: "vstream list"
  cduration :: int
  packets :: "packet list"
  seek_index :: "int \<Rightarrow> error + nat"
  position :: nat

text \<open>
  What the module imports and does not define: the installed-flags set by its
  \<^verbatim>\<open>try: import\<close> blocks, the byte order of the machine, the classifier's table and
  the supported identifiers of \<^verbatim>\<open>hub.compression\<close>, and the codecs of numcodecs,
  lz4, PIL, miniaudio and PyAV. They are parameters of every definition below.
\<close>

record env =
  MINIAUDIO_INSTALLED :: bool
  PYAV_INSTALLED :: bool
  LZ4_INSTALLED :: bool
  little_endian :: bool
  compression_types :: "string \<Rightarrow> compression_type option"
  compressions :: "string option list"
  numcodecs_lz4_compress :: "bytes \<Rightarrow> error + bytes"
  numcodecs_lz4_decompress :: "bytes \<Rightarrow> error + bytes"
  lz4_frame_decompress :: "bytes \<Rightarrow> error + bytes"
  Image_fromarray :: "ndarray \<Rightarrow> error + image"
  Image_save :: "image \<Rightarrow> string \<Rightarrow> bool \<Rightarrow> error + bytes"
  Image_save_all :: "image list \<Rightarrow> error + bytes"
  Image_open :: "source \<Rightarrow> error + ndarray"
  Image_open_frames :: "bytes \<Rightarrow> error + ndarray"
  Image_info :: "bytes \<Rightarrow> error + string \<times> int list \<times> string"
  Image_verify :: "bytes \<Rightarrow> error + int list \<times> string"
  Image_raw_encode :: "bytes \<Rightarrow> error + int list \<times> string"
  miniaudio_read :: "string \<Rightarrow> (source \<Rightarrow> error + raw_audio) option"
  miniaudio_info :: "string \<Rightarrow> (source \<Rightarrow> error + nat \<times> nat) option"
  av_open :: "source \<Rightarrow> error + container"

text \<open>Modelled from the spec: \<^verbatim>\<open>get_compression_type\<close> of \<^verbatim>\<open>hub.compression\<close>,
  which is not under src/. The classifier maps an identifier, or its absence, to its
  type tag through a constant table and fails with UnsupportedCompression on an
  identifier the table does not hold.\<close>

definition get_compression_type :: "env \<Rightarrow> string option \<Rightarrow> error + compression_type" where
  "get_compression_type E c =
     (case c of
        None \<Rightarrow> Inr NO_COMPRESSION
      | Some s \<Rightarrow>
          (case compression_types E s of
             None \<Rightarrow> Inl (UnsupportedCompressionError c)
           | Some t \<Rightarrow> Inr t))"

subsection \<open>The byte codec\<close>

definition compress_bytes :: "env \<Rightarrow> bytes \<Rightarrow> string option \<Rightarrow> error + bytes" where
  "compress_bytes E buffer compression =
     (if buffer = [] then Inr []
      else if compression = Some ''lz4'' then
        (if buffer = [] then Inr [] else numcodecs_lz4_compress E buffer)
      else Inl (SampleCompressionError [length buffer] compression
             (''Not a byte compression: '' @ (case compression of None \<Rightarrow> ''None'' | Some c \<Rightarrow> c))))"

definition lz4_empty_marker :: bytes where
  "lz4_empty_marker = [0, 0, 0, 0, 0]"

definition lz4_frame_magic :: bytes where
  "lz4_frame_magic = [0x04, 0x22, 0x4D, 0x18]"

definition decompress_bytes :: "env \<Rightarrow> bytes \<Rightarrow> string option \<Rightarrow> error + bytes" where
  "decompress_bytes E buffer compression =
     (if buffer = [] then Inr []
      else if compression = Some ''lz4'' then
        (if buffer = lz4_empty_marker then Inr []
         else if take 4 buffer = lz4_frame_magic then
           (if \<not> LZ4_INSTALLED E
            then Inl (ModuleNotFoundError ''Module lz4 not found. Install using `pip install lz4`.'')
            else lz4_frame_decompress E buffer)
         else numcodecs_lz4_decompress E buffer)
      else Inl SampleDecompressionError)"

subsection \<open>The image codec\<close>

text \<open>Python's \<^verbatim>\<open>xs[lo:hi]\<close> for indices that are not negative.\<close>

definition slice :: "nat \<Rightarrow> nat \<Rightarrow> 'a list \<Rightarrow> 'a list" where
  "slice lo hi xs = take (hi - lo) (drop lo xs)"

text \<open>\<^verbatim>\<open>array.squeeze(axis=2)\<close> of a three-dimensional array whose last axis has size 1:
  the same buffer under the first two dimensions.\<close>

definition squeeze_axis2 :: "ndarray \<Rightarrow> ndarray" where
  "squeeze_axis2 array = array\<lparr>shape := take 2 (shape array)\<rparr>"

definition to_image :: "env \<Rightarrow> ndarray \<Rightarrow> error + image" where
  "to_image E array =
     (let shp = shape array
      in if length shp = 3 \<and> shp ! 0 \<noteq> 1 \<and> shp ! 2 = 1
         then Image_fromarray E (squeeze_axis2 array)
         else Image_fromarray E array)"

text \<open>Running a fallible function over a list, stopping at the first error.\<close>

fun map_result :: "('a \<Rightarrow> error + 'b) \<Rightarrow> 'a list \<Rightarrow> error + 'b list" where
  "map_result f [] = Inr []"
| "map_result f (x # xs) =
     (case f x of
        Inl e \<Rightarrow> Inl e
      | Inr y \<Rightarrow> (case map_result f xs of Inl e \<Rightarrow> Inl e | Inr ys \<Rightarrow> Inr (y # ys)))"

text \<open>\<^verbatim>\<open>array[:, :, i]\<close> of an array of shape (H, W, N), and \<^verbatim>\<open>array[i]\<close>.\<close>

definition frame_axis2 :: "ndarray \<Rightarrow> nat \<Rightarrow> ndarray" where
  "frame_axis2 array i =
     (let n = shape array ! 2; it = itemsize (dtype array)
      in \<lparr>shape = take 2 (shape array), dtype = dtype array,
          data = concat (map (\<lambda>k. slice ((k * n + i) * it) ((k * n + i + 1) * it) (data array))
                   [0..<shape array ! 0 * shape array ! 1])\<rparr>)"

definition frame_axis0 :: "ndarray \<Rightarrow> nat \<Rightarrow> ndarray" where
  "frame_axis0 array i =
     (let n = prod_list (tl (shape array)) * itemsize (dtype array)
      in \<lparr>shape = tl (shape array), dtype = dtype array,
          data = slice (i * n) ((i + 1) * n) (data array)\<rparr>)"

definition compress_apng :: "env \<Rightarrow> ndarray \<Rightarrow> error + bytes" where
  "compress_apng E array =
     (case
        (if length (shape array) = 3
         then map_result (Image_fromarray E) (map (frame_axis2 array) [0..<shape array ! 2])
         else if length (shape array) = 4 \<and> shape array ! 3 \<le> 4
         then map_result (Image_fromarray E) (map (frame_axis0 array) [0..<shape array ! 0])
         else Inl (SampleCompressionError (shape array) (Some ''apng'') ''Unexpected shape.''))
      of
        Inl e \<Rightarrow> Inl e
      | Inr frames \<Rightarrow>
          (if frames = [] then Inl (IndexError ''list index out of range'')
           else Image_save_all E frames))"

text \<open>
  \<^verbatim>\<open>_decompress_apng\<close>: the frames the image library decodes (\<^verbatim>\<open>np.array(img)\<close>
  after each \<^verbatim>\<open>img.seek(i)\<close>) are stacked along a new last axis when they are
  two-dimensional and along a new first axis otherwise. The library hands the
  frames over as one array of shape (n_frames,) + frame shape.
\<close>

definition stack_last :: "ndarray \<Rightarrow> ndarray" where
  "stack_last fs =
     (let n = shape fs ! 0; hw = shape fs ! 1 * shape fs ! 2; it = itemsize (dtype fs)
      in \<lparr>shape = tl (shape fs) @ [n], dtype = dtype fs,
          data = concat (map (\<lambda>k. concat (map (\<lambda>i. slice ((i * hw + k) * it) ((i * hw + k + 1) * it) (data fs))
                   [0..<n])) [0..<hw])\<rparr>)"

definition decompress_apng :: "env \<Rightarrow> source \<Rightarrow> error + ndarray" where
  "decompress_apng E buffer =
     (case buffer of
        Path p \<Rightarrow> Inl (TypeError ''a bytes-like object is required'')
      | Buffer b \<Rightarrow>
          (case Image_open_frames E b of
             Inl e \<Rightarrow> Inl e
           | Inr fs \<Rightarrow> if length (shape fs) = 3 then Inr (stack_last fs) else Inr fs))"

text \<open>\<^verbatim>\<open>except (TypeError, OSError) as e: raise SampleCompressionError(...)\<close>.\<close>

definition wrap_compression_error :: "nat list \<Rightarrow> string option \<Rightarrow> error + 'a \<Rightarrow> error + 'a" where
  "wrap_compression_error shp c r =
     (case r of
        Inl (TypeError m) \<Rightarrow> Inl (SampleCompressionError shp c m)
      | Inl (OSError m) \<Rightarrow> Inl (SampleCompressionError shp c m)
      | _ \<Rightarrow> r)"

text \<open>\<^verbatim>\<open>except Exception: raise SampleDecompressionError()\<close>.\<close>

definition wrap_decompression_error :: "error + 'a \<Rightarrow> error + 'a" where
  "wrap_decompression_error r = (case r of Inl e \<Rightarrow> Inl SampleDecompressionError | Inr x \<Rightarrow> Inr x)"

definition compress_array :: "env \<Rightarrow> ndarray \<Rightarrow> string option \<Rightarrow> error + bytes" where
  "compress_array E array compression =
     (if 0 \<in> set (shape array) then Inr []
      else if compression \<notin> set (compressions E) then Inl (UnsupportedCompressionError compression)
      else case compression of
        None \<Rightarrow> Inr (tobytes array)
      | Some c \<Rightarrow>
          (case get_compression_type E compression of
             Inl e \<Rightarrow> Inl e
           | Inr compr_type \<Rightarrow>
               if compr_type = BYTE_COMPRESSION then compress_bytes E (tobytes array) compression
               else if compr_type = AUDIO_COMPRESSION then
                 Inl (NotImplementedError ''In order to store audio data, you should use `hub.read(path_to_file)`. Compressing raw data is not yet supported.'')
               else if compr_type = VIDEO_COMPRESSION then
                 Inl (NotImplementedError ''In order to store video data, you should use `hub.read(path_to_file)`. Compressing raw data is not yet supported.'')
               else if c = ''apng'' then compress_apng E array
               else wrap_compression_error (shape array) compression
                      (case to_image E array of
                         Inl e \<Rightarrow> Inl e
                       | Inr img \<Rightarrow> Image_save E img c (c = ''ico''))))"

subsection \<open>The audio codec\<close>

definition miniaudio_missing :: error where
  "miniaudio_missing = ModuleNotFoundError ''Miniaudio is not installed. Run `pip install hub[audio]`.''"

text \<open>The name \<^verbatim>\<open>f"{compression}_read{'_file' if isinstance(file, str) else ''}_f32"\<close>
  that is looked up among the module's globals.\<close>

definition audio_function_name :: "string option \<Rightarrow> string \<Rightarrow> source \<Rightarrow> string \<Rightarrow> string" where
  "audio_function_name compression verb file suffix =
     (case compression of None \<Rightarrow> ''None'' | Some c \<Rightarrow> c) @ verb
       @ (case file of Path p \<Rightarrow> ''_file'' | Buffer b \<Rightarrow> []) @ suffix"

definition decompress_audio :: "env \<Rightarrow> source \<Rightarrow> string option \<Rightarrow> error + ndarray" where
  "decompress_audio E file compression =
     (if \<not> MINIAUDIO_INSTALLED E then Inl miniaudio_missing
      else case miniaudio_read E (audio_function_name compression ''_read'' file ''_f32'') of
        None \<Rightarrow> Inl (KeyError (audio_function_name compression ''_read'' file ''_f32''))
      | Some decompressor \<Rightarrow>
          (case decompressor file of
             Inl e \<Rightarrow> Inl e
           | Inr raw \<Rightarrow>
               frombuffer_reshape (samples raw) (DType ''<f4'' 4) [num_frames raw, nchannels raw]))"

definition read_audio_shape :: "env \<Rightarrow> source \<Rightarrow> string option \<Rightarrow> error + nat list" where
  "read_audio_shape E file compression =
     (if \<not> MINIAUDIO_INSTALLED E then Inl miniaudio_missing
      else case miniaudio_info E (audio_function_name compression ''_get'' file ''_info'') of
        None \<Rightarrow> Inl (KeyError (audio_function_name compression ''_get'' file ''_info''))
      | Some f_info \<Rightarrow>
          (case f_info file of
             Inl e \<Rightarrow> Inl e
           | Inr (frames, channels) \<Rightarrow> Inr [frames, channels]))"

subsection \<open>The video codec\<close>

definition pyav_missing :: error where
  "pyav_missing = ModuleNotFoundError ''PyAV is not installed. Run `pip install hub[video]`.''"

definition open_video :: "env \<Rightarrow> source \<Rightarrow> error + container \<times> vstream" where
  "open_video E file =
     (if \<not> PYAV_INSTALLED E then Inl pyav_missing
      else case av_open E file of
        Inl e \<Rightarrow> Inl e
      | Inr cont \<Rightarrow>
          (case streams_video cont of
             [] \<Rightarrow> Inl (IndexError ''No video streams available!'')
           | vs # _ \<Rightarrow> Inr (cont, vs)))"

text \<open>
  The divisions of \<^verbatim>\<open>_frame_to_stamp\<close> and \<^verbatim>\<open>_read_metadata_from_vstream\<close> are
  Python's float divisions. They are exact rationals here: the rounding of a float is
  not modelled.
\<close>

definition frame_to_stamp :: "int \<Rightarrow> vstream \<Rightarrow> error + int" where
  "frame_to_stamp nframe stream =
     (if snd (guessed_rate stream) = 0 then Inl ZeroDivisionError
      else let fps = rat_of_int (fst (guessed_rate stream)) / rat_of_int (snd (guessed_rate stream))
      in if fps = 0 then Inl ZeroDivisionError
      else let target = rat_of_int nframe / fps
      in if fst (time_base stream) = 0 then Inl ZeroDivisionError
      else Inr \<lfloor>target * (rat_of_int (snd (time_base stream)) / rat_of_int (fst (time_base stream)))\<rfloor>)"

definition av_time_base :: int where
  "av_time_base = 1000000"

definition read_metadata_from_vstream ::
  "container \<Rightarrow> vstream \<Rightarrow> error + (int \<times> nat \<times> nat \<times> nat) \<times> int \<times> rat \<times> rat" where
  "read_metadata_from_vstream cont vs =
     (case
        (case vduration vs of
           None \<Rightarrow> Inr (cduration cont, 1 / rat_of_int av_time_base)
         | Some d \<Rightarrow>
             if snd (time_base vs) = 0 then Inl ZeroDivisionError
             else Inr (d, rat_of_int (fst (time_base vs)) / rat_of_int (snd (time_base vs))))
      of
        Inl e \<Rightarrow> Inl e
      | Inr (duration, tb) \<Rightarrow>
          if snd (guessed_rate vs) = 0 then Inl ZeroDivisionError
          else let fps = rat_of_int (fst (guessed_rate vs)) / rat_of_int (snd (guessed_rate vs));
                   nframes = (if vframes vs = 0 then \<lfloor>fps * rat_of_int duration * tb\<rfloor> else vframes vs)
               in Inr ((nframes, vheight vs, vwidth vs, 3), duration, fps, tb))"

text \<open>\<^verbatim>\<open>video[i] = arr\<close>: the frame \<open>i\<close> of the buffer is overwritten. numpy raises
  IndexError when \<open>i\<close> is not below the number of frames.\<close>

definition setitem_frame :: "ndarray \<Rightarrow> nat \<Rightarrow> ndarray \<Rightarrow> error + ndarray" where
  "setitem_frame vid i arr =
     (if shape vid = [] \<or> hd (shape vid) \<le> i
        then Inl (IndexError ''index is out of bounds for axis 0'')
      else if shape arr \<noteq> tl (shape vid)
        then Inl (ValueError ''could not broadcast input array'')
      else let n = prod_list (tl (shape vid)) * itemsize (dtype vid)
           in Inr (vid\<lparr>data := take (i * n) (data vid) @ data arr @ drop ((i + 1) * n) (data vid)\<rparr>))"

text \<open>\<^verbatim>\<open>video[::-1]\<close>.\<close>

definition flip_frames :: "ndarray \<Rightarrow> ndarray" where
  "flip_frames vid =
     (let n = prod_list (tl (shape vid)) * itemsize (dtype vid)
      in vid\<lparr>data := concat (rev (map (\<lambda>i. slice (i * n) ((i + 1) * n) (data vid)) [0..<hd (shape vid)]))\<rparr>)"

text \<open>\<^verbatim>\<open>container.seek(seek_target, stream=vstream)\<close>: the demuxer goes on from the
  packet the container finds for the timestamp, or the seek is refused.\<close>

definition seek :: "container \<Rightarrow> int \<Rightarrow> error + container" where
  "seek cont target =
     (case seek_index cont target of
        Inl e \<Rightarrow> Inl e
      | Inr k \<Rightarrow> Inr (cont\<lparr>position := k\<rparr>))"

text \<open>The variables of the decoding loop: the output array, \<open>i\<close>, \<open>seek_target\<close> and
  the container the packets are demuxed from.\<close>

record vloop =
  video :: ndarray
  idx :: nat
  seek_target :: int
  cont :: container

text \<open>The inner loop \<^verbatim>\<open>for frame in packet.decode()\<close>. \<open>sk\<close> is
  \<^verbatim>\<open>step_seeking and seekable\<close>; \<^verbatim>\<open>packet.pts and packet.pts >= seek_target\<close> is
  false for a missing timestamp and for the timestamp 0.\<close>

fun decode_frames :: "bool \<Rightarrow> int \<Rightarrow> int option \<Rightarrow> ndarray list \<Rightarrow> vloop \<Rightarrow> error + vloop" where
  "decode_frames sk step_time p [] st = Inr st"
| "decode_frames sk step_time p (frame # frames) st =
     (if (case p of None \<Rightarrow> False | Some t \<Rightarrow> t \<noteq> 0 \<and> seek_target st \<le> t) then
        (case setitem_frame (video st) (idx st) frame of
           Inl e \<Rightarrow> Inl e
         | Inr v \<Rightarrow>
             let st1 = st\<lparr>video := v, idx := idx st + 1, seek_target := seek_target st + step_time\<rparr>
             in if sk then
                  (case seek (cont st1) (seek_target st1) of
                     Inl e \<Rightarrow> Inl e
                   | Inr c \<Rightarrow> decode_frames sk step_time p frames (st1\<lparr>cont := c\<rparr>))
                else decode_frames sk step_time p frames st1)
      else decode_frames sk step_time p frames st)"

lemma seek_packets: "seek c t = Inr c' \<Longrightarrow> packets c' = packets c"
  by (auto simp: seek_def split: sum.splits)

lemma decode_frames_progress:
  "decode_frames sk step_time p frames st = Inr st' \<Longrightarrow>
     shape (video st') = shape (video st) \<and> packets (cont st') = packets (cont st) \<and>
     ((idx st' = idx st \<and> cont st' = cont st) \<or>
      (idx st < idx st' \<and> idx st' \<le> hd (shape (video st))))"
proof (induction frames arbitrary: st)
  case Nil
  then show ?case by simp
next
  case (Cons frame frames)
  show ?case
  proof (cases "case p of None \<Rightarrow> False | Some t \<Rightarrow> t \<noteq> 0 \<and> seek_target st \<le> t")
    case False
    with Cons.prems have "decode_frames sk step_time p frames st = Inr st'" by simp
    from Cons.IH [OF this] show ?thesis .
  next
    case True
    from True Cons.prems obtain v where v: "setitem_frame (video st) (idx st) frame = Inr v"
      by (auto split: sum.splits)
    from v have sh: "shape v = shape (video st)" and lt: "idx st < hd (shape (video st))"
      by (auto simp: setitem_frame_def Let_def split: if_splits)
    define st1 where "st1 = st\<lparr>video := v, idx := idx st + 1, seek_target := seek_target st + step_time\<rparr>"
    show ?thesis
    proof (cases sk)
      case False
      with True v Cons.prems have "decode_frames sk step_time p frames st1 = Inr st'"
        by (simp add: st1_def Let_def)
      from Cons.IH [OF this] sh lt show ?thesis by (auto simp: st1_def)
    next
      case sk: True
      with True v Cons.prems obtain c where c: "seek (cont st1) (seek_target st1) = Inr c"
        and rec: "decode_frames sk step_time p frames (st1\<lparr>cont := c\<rparr>) = Inr st'"
        by (auto simp: st1_def Let_def split: sum.splits)
      from seek_packets [OF c] have "packets c = packets (cont st)" by (simp add: st1_def)
      with Cons.IH [OF rec] sh lt show ?thesis by (auto simp: st1_def)
    qed
  qed
qed

text \<open>The outer loop \<^verbatim>\<open>for packet in container.demux(video=0)\<close> with its
  \<^verbatim>\<open>if i == nframes: break\<close>. The demuxer hands out the packet at the container's
  position and moves on by one.\<close>

function demux_loop :: "bool \<Rightarrow> int \<Rightarrow> int \<Rightarrow> vloop \<Rightarrow> error + vloop" where
  "demux_loop sk step_time nframes st =
     (if length (packets (cont st)) \<le> position (cont st) then Inr st
      else let p = packets (cont st) ! position (cont st);
               st0 = st\<lparr>cont := (cont st)\<lparr>position := position (cont st) + 1\<rparr>\<rparr>
           in case decode_frames sk step_time (pts p) (decoded p) st0 of
                Inl e \<Rightarrow> Inl e
              | Inr st' \<Rightarrow> if int (idx st') = nframes then Inr st' else demux_loop sk step_time nframes st')"
  by pat_completeness auto
termination
proof (relation "measures [\<lambda>(sk, step_time, nframes, st). hd (shape (video st)) - idx st,
                           \<lambda>(sk, step_time, nframes, st). length (packets (cont st)) - position (cont st)]",
       goal_cases)
  case 1
  then show ?case by simp
next
  case (2 sk step_time nframes st p st0 st')
  then have "decode_frames sk step_time (pts p) (decoded p) st0 = Inr st'" by simp
  from decode_frames_progress [OF this] 2 show ?case by auto
qed

declare demux_loop.simps [simp del]

definition uint8 :: np_dtype where
  "uint8 = DType ''|u1'' 1"

definition decompress_video ::
  "env \<Rightarrow> source \<Rightarrow> int option \<Rightarrow> int option \<Rightarrow> int option \<Rightarrow> bool \<Rightarrow> error + ndarray" where
  "decompress_video E file start stop step reverse =
     (case open_video E file of
        Inl e \<Rightarrow> Inl e
      | Inr (cont0, vs) \<Rightarrow>
     (case read_metadata_from_vstream cont0 vs of
        Inl e \<Rightarrow> Inl e
      | Inr ((nf, height, width, channels), meta) \<Rightarrow>
          let start' = (case start of None \<Rightarrow> 0 | Some s \<Rightarrow> s);
              stop' = (case stop of None \<Rightarrow> nf | Some s \<Rightarrow> s);
              step' = (case step of None \<Rightarrow> 1 | Some s \<Rightarrow> s)
          in if step' = 0 then Inl ZeroDivisionError
          else let nframes = \<lceil>rat_of_int (stop' - start') / rat_of_int step'\<rceil>
          in if nframes < 0 then Inl (ValueError ''negative dimensions are not allowed'')
          else
     (case frame_to_stamp start' vs of
        Inl e \<Rightarrow> Inl e
      | Inr target \<Rightarrow>
     (case frame_to_stamp step' vs of
        Inl e \<Rightarrow> Inl e
      | Inr step_time \<Rightarrow>
     (case
        (case seek cont0 target of
           Inr c \<Rightarrow> Inr (True, c)
         | Inl PermissionError \<Rightarrow>
             (case open_video E file of Inl e \<Rightarrow> Inl e | Inr (c, v) \<Rightarrow> Inr (False, c))
         | Inl e \<Rightarrow> Inl e)
      of
        Inl e \<Rightarrow> Inl e
      | Inr (seekable, c) \<Rightarrow>
     (case demux_loop (gop_size vs < step' \<and> seekable) step_time nframes
             \<lparr>video = np_zeros [nat nframes, height, width, 3] (Some uint8), idx = 0,
              seek_target = target, cont = c\<rparr>
      of
        Inl e \<Rightarrow> Inl e
      | Inr st \<Rightarrow> Inr (if reverse then flip_frames (video st) else video st)))))))"

subsection \<open>Decompressing one sample\<close>

text \<open>In the branch of the byte compressions a str that is not empty reaches the
  codec, which refuses it with a TypeError; the empty str counts as an empty buffer.\<close>

definition decompress_array ::
  "env \<Rightarrow> source \<Rightarrow> nat list option \<Rightarrow> np_dtype option \<Rightarrow> string option \<Rightarrow>
     int option \<Rightarrow> int option \<Rightarrow> int option \<Rightarrow> bool \<Rightarrow> error + ndarray" where
  "decompress_array E buffer shp dt compression start_idx end_idx step reverse =
     (case get_compression_type E compression of
        Inl e \<Rightarrow> Inl e
      | Inr compr_type \<Rightarrow>
          if compr_type = BYTE_COMPRESSION then
            (case (dt, shp) of
               (Some d, Some s) \<Rightarrow>
                 wrap_decompression_error
                   (case
                      (case buffer of
                         Buffer b \<Rightarrow> decompress_bytes E b compression
                       | Path p \<Rightarrow> if p = [] then Inr [] else Inl (TypeError ''a bytes-like object is required''))
                    of
                      Inl e \<Rightarrow> Inl e
                    | Inr decompressed_bytes \<Rightarrow> frombuffer_reshape decompressed_bytes d s)
             | _ \<Rightarrow> Inl (ValueError ''dtype and shape must be specified for byte compressions.''))
          else if compr_type = AUDIO_COMPRESSION then decompress_audio E buffer compression
          else if compr_type = VIDEO_COMPRESSION then
            decompress_video E buffer start_idx end_idx step reverse
          else if compression = Some ''apng'' then decompress_apng E buffer
          else wrap_decompression_error
                 (case shp of
                    Some s \<Rightarrow>
                      if 0 \<in> set s then Inr (np_zeros s dt)
                      else (case Image_open E buffer of Inl e \<Rightarrow> Inl e | Inr arr \<Rightarrow> reshape arr s)
                  | None \<Rightarrow> Image_open E buffer))"

subsection \<open>The multi-sample tiler\<close>

definition max_list :: "nat list \<Rightarrow> nat" where
  "max_list xs = foldr max xs 0"

definition channels_mismatch :: error where
  "channels_mismatch =
     ValueError ''The data can't be compressed as the number of channels doesn't match.''"

definition get_bounding_shape :: "nat list list \<Rightarrow> error + nat list" where
  "get_bounding_shape shapes =
     (if shapes = [] then Inr [0, 0, 0]
      else let channels_shape = drop 2 (hd shapes)
      in if list_ex (\<lambda>shp. drop 2 shp \<noteq> channels_shape) shapes then Inl channels_mismatch
      else if list_ex (\<lambda>s. length s < 2) shapes then Inl (IndexError ''tuple index out of range'')
      else Inr ([max_list (map (\<lambda>s. s ! 0) shapes), sum_list (map (\<lambda>s. s ! 1) shapes)]
                 @ channels_shape))"

text \<open>
  The rows of a C-contiguous buffer of \<open>h\<close> rows of \<open>n\<close> bytes, and the rows with a
  piece written into each of the first ones at byte offset \<open>off\<close>.
\<close>

definition rows_of :: "nat \<Rightarrow> nat \<Rightarrow> 'a list \<Rightarrow> 'a list list" where
  "rows_of h n xs = map (\<lambda>i. take n (drop (i * n) xs)) [0..<h]"

fun put_rows :: "nat \<Rightarrow> 'a list list \<Rightarrow> 'a list list \<Rightarrow> 'a list list" where
  "put_rows off (new # news) (row # rows) =
     (take off row @ new @ drop (off + length new) row) # put_rows off news rows"
| "put_rows off news rows = rows"

text \<open>
  \<^verbatim>\<open>canvas[:h, x0:x1] = arr\<close> and \<^verbatim>\<open>canvas[:h, x0:x1]\<close> on an array of at least two
  dimensions: numpy clips the slices to the array. An item of the first two axes is a
  block of \<open>c\<close> bytes, the trailing dimensions times the item size. The assignment is
  modelled for an \<open>arr\<close> of exactly the shape of the region (numpy would also broadcast
  a smaller one, which \<open>compress_multiple\<close> never passes).
\<close>

definition setitem_block :: "ndarray \<Rightarrow> nat \<Rightarrow> nat \<Rightarrow> nat \<Rightarrow> ndarray \<Rightarrow> error + ndarray" where
  "setitem_block canvas h x0 x1 arr =
     (if length (shape canvas) < 2 then Inl (IndexError ''too many indices for array'')
      else let rows = shape canvas ! 0; cols = shape canvas ! 1;
               c = prod_list (drop 2 (shape canvas)) * itemsize (dtype canvas);
               h' = min h rows; a = min x0 cols; b = max a (min x1 cols)
           in if shape arr \<noteq> [h', b - a] @ drop 2 (shape canvas)
              then Inl (ValueError ''could not broadcast input array'')
              else Inr (canvas\<lparr>data :=
                     concat (put_rows (a * c) (rows_of h' ((b - a) * c) (data arr))
                               (rows_of rows (cols * c) (data canvas)))\<rparr>))"


text \<open>The loop \<^verbatim>\<open>for arr in arrays: canvas[...] = arr; next_x += arr.shape[1]\<close>.\<close>

fun pack_canvas :: "ndarray \<Rightarrow> nat \<Rightarrow> ndarray list \<Rightarrow> error + ndarray" where
  "pack_canvas canvas next_x [] = Inr canvas"
| "pack_canvas canvas next_x (arr # arrays) =
     (if length (shape arr) < 2 then Inl (IndexError ''tuple index out of range'')
      else case setitem_block canvas (shape arr ! 0) next_x (next_x + shape arr ! 1) arr of
        Inl e \<Rightarrow> Inl e
      | Inr canvas' \<Rightarrow> pack_canvas canvas' (next_x + shape arr ! 1) arrays)"

definition compress_multiple :: "env \<Rightarrow> ndarray list \<Rightarrow> string option \<Rightarrow> error + bytes" where
  "compress_multiple E arrays compression =
     (if arrays = [] then Inr []
      else case find (\<lambda>arr. dtype arr \<noteq> dtype (hd arrays)) arrays of
        Some arr \<Rightarrow>
          Inl (SampleCompressionError (shape arr) compression ''All arrays expected to have same dtype.'')
      | None \<Rightarrow>
          (case get_compression_type E compression of
             Inl e \<Rightarrow> Inl e
           | Inr compr_type \<Rightarrow>
               if compr_type = BYTE_COMPRESSION then
                 compress_bytes E (concat (map tobytes arrays)) compression
               else if compr_type = AUDIO_COMPRESSION then
                 Inl (NotImplementedError ''compress_multiple does not support audio samples.'')
               else if compr_type = VIDEO_COMPRESSION then
                 Inl (NotImplementedError ''compress_multiple does not support video samples.'')
               else if compression = Some ''apng'' then
                 Inl (NotImplementedError ''compress_multiple does not support apng samples.'')
               else
                 (case get_bounding_shape (map shape arrays) of
                    Inl e \<Rightarrow> Inl e
                  | Inr bounding \<Rightarrow>
                      (case pack_canvas (np_zeros bounding (Some (dtype (hd arrays)))) 0 arrays of
                         Inl e \<Rightarrow> Inl e
                       | Inr canvas \<Rightarrow> compress_array E canvas compression))))"




subsection \<open>Reading JPEG and PNG headers\<close>

text \<open>\<^verbatim>\<open>int.from_bytes(b, "big")\<close>, and the two \<^verbatim>\<open>struct\<close> formats \<^verbatim>\<open>">HHB"\<close> and
  \<^verbatim>\<open>">ii"\<close>, which raise \<^verbatim>\<open>struct.error\<close> on a buffer of another length.\<close>

definition be_nat :: "bytes \<Rightarrow> nat" where
  "be_nat bs = fold (\<lambda>b acc. acc * 256 + unat b) bs 0"

definition unpack_HHB :: "bytes \<Rightarrow> error + nat \<times> nat \<times> nat" where
  "unpack_HHB b =
     (if length b \<noteq> 5 then Inl StructError
      else Inr (be_nat (slice 0 2 b), be_nat (slice 2 4 b), unat (b ! 4)))"

definition unpack_ii :: "bytes \<Rightarrow> error + int \<times> int" where
  "unpack_ii b =
     (if length b \<noteq> 8 then Inl StructError
      else Inr (sint (word_of_nat (be_nat (slice 0 4 b)) :: 32 word),
                sint (word_of_nat (be_nat (slice 4 8 b)) :: 32 word)))"

definition JPEG_SOFS :: "bytes list" where
  "JPEG_SOFS =
     [[0xFF, 0xC0], [0xFF, 0xC2], [0xFF, 0xC1], [0xFF, 0xC3], [0xFF, 0xC5], [0xFF, 0xC6],
      [0xFF, 0xC7], [0xFF, 0xC9], [0xFF, 0xCA], [0xFF, 0xCB], [0xFF, 0xCD], [0xFF, 0xCE],
      [0xFF, 0xCF], [0xFF, 0xDE],
      [0xFF, 0xCC], [0xFF, 0xDC], [0xFF, 0xDD], [0xFF, 0xDF]]
     @ map (\<lambda>x. [0xFF, of_nat x]) [0xE0..<0xF0]
     @ [[0xFF, 0xDB], [0xFF, 0xFE], [0xFF, 0xDA]]"

definition JPEG_SKIP_MARKERS :: "bytes list" where
  "JPEG_SKIP_MARKERS = drop 14 JPEG_SOFS"

text \<open>
  \<^verbatim>\<open>_re_find_first(_JPEG_SOFS_RE, view)\<close>: the pattern is an alternation of literal
  byte strings, so its first match starts at the first position where one of them
  stands.
\<close>

fun re_find_first :: "bytes list \<Rightarrow> bytes \<Rightarrow> nat option" where
  "re_find_first pats [] = None"
| "re_find_first pats (b # bs) =
     (if list_ex (\<lambda>p. take (length p) (b # bs) = p) pats then Some 0
      else map_option Suc (re_find_first pats bs))"

lemma re_find_first_less: "re_find_first pats xs = Some m \<Longrightarrow> m < length xs"
  by (induction xs arbitrary: m) (auto split: if_splits)

text \<open>
  The loop that looks for the start of frame, the same text in
  \<^verbatim>\<open>_read_jpeg_shape_from_buffer\<close> and \<^verbatim>\<open>_verify_jpeg_buffer\<close>. \<open>sof_idx\<close> is
  \<open>None\<close> where the source holds -1.
\<close>

function jpeg_scan :: "bytes \<Rightarrow> nat \<Rightarrow> nat option \<Rightarrow> nat option" where
  "jpeg_scan buf offset sof_idx =
     (case re_find_first JPEG_SOFS (drop offset buf) of
        None \<Rightarrow> sof_idx
      | Some m \<Rightarrow>
          if slice (m + offset) (m + offset + 2) buf = last JPEG_SOFS then sof_idx
          else jpeg_scan buf
                 (m + offset + be_nat (slice (m + offset + 2) (m + offset + 4) buf) + 2)
                 (if slice (m + offset) (m + offset + 2) buf \<notin> set JPEG_SKIP_MARKERS
                  then Some (m + offset) else sof_idx))"
  by pat_completeness auto
termination
  by (relation "measure (\<lambda>(buf, offset, sof_idx). length buf - offset)")
     (auto dest: re_find_first_less)

declare jpeg_scan.simps [simp del]

definition jpeg_shape :: "nat \<times> nat \<times> nat \<Rightarrow> nat list" where
  "jpeg_shape s = (case s of (h, w, n) \<Rightarrow> if n = 1 then [h, w] else [h, w, n])"

definition read_jpeg_shape_from_buffer :: "bytes \<Rightarrow> error + nat list" where
  "read_jpeg_shape_from_buffer buf =
     (case jpeg_scan buf 0 None of
        None \<Rightarrow> Inl PlainException
      | Some sof_idx \<Rightarrow>
          (case unpack_HHB (slice (sof_idx + 5) (sof_idx + 10) buf) of
             Inl e \<Rightarrow> Inl e
           | Inr s \<Rightarrow> Inr (jpeg_shape s)))"

text \<open>\<^verbatim>\<open>buf.find(pat) != -1\<close>.\<close>

fun bytes_contains :: "bytes \<Rightarrow> bytes \<Rightarrow> bool" where
  "bytes_contains [] pat = (pat = [])"
| "bytes_contains (b # bs) pat = (take (length pat) (b # bs) = pat \<or> bytes_contains bs pat)"

definition verify_jpeg_buffer :: "bytes \<Rightarrow> error + nat list" where
  "verify_jpeg_buffer buf =
     (if take 2 buf \<noteq> [0xFF, 0xD8] then Inl AssertionError
      else case jpeg_scan buf 0 None of
        None \<Rightarrow> Inl PlainException
      | Some sof_idx \<Rightarrow>
          let len = be_nat (slice (sof_idx + 2) (sof_idx + 4) buf)
          in if slice (sof_idx + len + 2) (sof_idx + len + 4) buf
                  \<notin> set [[0xFF, 0xC4], [0xFF, 0xDB], [0xFF, 0xDD], [0xFF, 0xDA]]
             then Inl AssertionError
             else case unpack_HHB (slice (sof_idx + 5) (sof_idx + 10) buf) of
               Inl e \<Rightarrow> Inl e
             | Inr s \<Rightarrow>
                 if \<not> bytes_contains buf [0xFF, 0xD9] then Inl AssertionError
                 else Inr (jpeg_shape s))"

definition NATIVE_INT32 :: "env \<Rightarrow> string" where
  "NATIVE_INT32 E = (if little_endian E then ''<i4'' else ''>i4'')"

definition read_png_shape_and_dtype :: "env \<Rightarrow> bytes \<Rightarrow> error + int list \<times> string" where
  "read_png_shape_and_dtype E f =
     (case unpack_ii (slice 16 24 f) of
        Inl e \<Rightarrow> Inl e
      | Inr (width, height) \<Rightarrow>
          if length (slice 24 26 f) \<noteq> 2 then Inl (ValueError ''not enough values to unpack'')
          else let bits = f ! 24; colors = f ! 25;
                   typstr = (if colors = 0
                             then (if bits = 1 then ''|b1''
                                   else if bits = 16 then NATIVE_INT32 E
                                   else ''|u1'')
                             else ''|u1'');
                   nlayers = (if colors = 0 then None
                              else if colors = 2 then Some 3
                              else if colors = 3 then None
                              else if colors = 4 then (if bits = 8 then Some 2 else Some 4)
                              else Some 4)
               in Inr (case nlayers of None \<Rightarrow> [height, width] | Some n \<Rightarrow> [height, width] @ [n],
                       typstr))"

subsection \<open>Verification and introspection of in-memory contents\<close>

definition read_video_shape :: "env \<Rightarrow> source \<Rightarrow> error + int list" where
  "read_video_shape E file =
     (case open_video E file of
        Inl e \<Rightarrow> Inl e
      | Inr (cont0, vs) \<Rightarrow>
          (case read_metadata_from_vstream cont0 vs of
             Inl e \<Rightarrow> Inl e
           | Inr ((nf, height, width, channels), meta) \<Rightarrow>
               Inr [nf, int height, int width, int channels]))"

text \<open>\<^verbatim>\<open>_verify_png\<close> and \<^verbatim>\<open>_fast_decompress\<close> consist of calls into the image
  library: open, verify and report the shape and the type string; open, load and run
  the raw encoder over the pixels.\<close>

definition verify_png :: "env \<Rightarrow> bytes \<Rightarrow> error + int list \<times> string" where
  "verify_png E buf = Image_verify E buf"

definition fast_decompress :: "env \<Rightarrow> bytes \<Rightarrow> error + int list \<times> string" where
  "fast_decompress E buf = Image_raw_encode E buf"

text \<open>\<^verbatim>\<open>except Exception: raise CorruptedSampleError(compression)\<close>.\<close>

definition wrap_corrupted :: "string \<Rightarrow> error + 'a \<Rightarrow> error + 'a" where
  "wrap_corrupted compression r =
     (case r of Inl e \<Rightarrow> Inl (CorruptedSampleError (Some compression)) | Inr x \<Rightarrow> Inr x)"

definition with_typestr :: "string \<Rightarrow> error + nat list \<Rightarrow> error + int list \<times> string" where
  "with_typestr t r = (case r of Inl e \<Rightarrow> Inl e | Inr shp \<Rightarrow> Inr (map int shp, t))"

text \<open>\<open>verify_compressed_file\<close> and \<open>read_meta_from_compressed_file\<close> for the contents
  of a file held in memory (neither a path nor a file object) and an identifier that
  is given.\<close>

definition verify_compressed_file :: "env \<Rightarrow> bytes \<Rightarrow> string \<Rightarrow> error + int list \<times> string" where
  "verify_compressed_file E file compression =
     wrap_corrupted compression
       (if compression = ''png'' then verify_png E file
        else if compression = ''jpeg'' then with_typestr ''|u1'' (verify_jpeg_buffer file)
        else case get_compression_type E (Some compression) of
          Inl e \<Rightarrow> Inl e
        | Inr t \<Rightarrow>
            if t = AUDIO_COMPRESSION
              then with_typestr ''<f4'' (read_audio_shape E (Buffer file) (Some compression))
            else if compression \<in> set [''mp4'', ''mkv'', ''avi'']
              then (case read_video_shape E (Buffer file) of
                      Inl e \<Rightarrow> Inl e | Inr shp \<Rightarrow> Inr (shp, ''|u1''))
            else fast_decompress E file)"

definition read_meta_from_compressed_file ::
  "env \<Rightarrow> bytes \<Rightarrow> string \<Rightarrow> error + string \<times> int list \<times> string" where
  "read_meta_from_compressed_file E file compression =
     (if compression = ''jpeg'' then
        (case wrap_corrupted ''jpeg'' (with_typestr ''|u1'' (read_jpeg_shape_from_buffer file)) of
           Inl e \<Rightarrow> Inl e | Inr (shp, t) \<Rightarrow> Inr (compression, shp, t))
      else if compression = ''png'' then
        (case wrap_corrupted ''png'' (read_png_shape_and_dtype E file) of
           Inl e \<Rightarrow> Inl e | Inr (shp, t) \<Rightarrow> Inr (compression, shp, t))
      else case get_compression_type E (Some compression) of
        Inl e \<Rightarrow> Inl e
      | Inr ct \<Rightarrow>
          if ct = AUDIO_COMPRESSION then
            (case wrap_corrupted compression
                    (with_typestr ''<f4'' (read_audio_shape E (Buffer file) (Some compression))) of
               Inl e \<Rightarrow> Inl e | Inr (shp, t) \<Rightarrow> Inr (compression, shp, t))
          else if compression \<in> set [''mp4'', ''mkv'', ''avi''] then
            (case wrap_corrupted compression (read_video_shape E (Buffer file)) of
               Inl e \<Rightarrow> Inl e | Inr shp \<Rightarrow> Inr (compression, shp, ''|u1''))
          else Image_info E file)"

subsection \<open>A small environment to evaluate the definitions in\<close>

text \<open>
  Stand-ins for the external codecs, lossless on what they are given: the byte codec
  stores the buffer behind a four-byte header, the image codec stores the number of
  dimensions, the dimensions and the buffer of an array of bytes.
\<close>

definition demo_save :: "image \<Rightarrow> string \<Rightarrow> bool \<Rightarrow> error + bytes" where
  "demo_save img fmt sizes =
     (case img of Image_of a \<Rightarrow>
        Inr (of_nat (length (shape a)) # map of_nat (shape a) @ data a))"

definition demo_open :: "source \<Rightarrow> error + ndarray" where
  "demo_open src =
     (case src of
        Buffer (n # rest) \<Rightarrow>
          Inr \<lparr>shape = map unat (take (unat n) rest), dtype = uint8, data = drop (unat n) rest\<rparr>
      | _ \<Rightarrow> Inl (CodecError ''cannot identify image file''))"

definition demo_frame :: ndarray where
  "demo_frame = \<lparr>shape = [1, 1, 3], dtype = uint8, data = [7, 8, 9]\<rparr>"

definition demo_stream :: vstream where
  "demo_stream = \<lparr>vduration = Some 12, vframes = 12, guessed_rate = (1, 1), time_base = (1, 1),
                   vheight = 1, vwidth = 1, gop_size = 12\<rparr>"

definition demo_container :: container where
  "demo_container =
     \<lparr>streams_video = [demo_stream], cduration = 12,
      packets = map (\<lambda>t. \<lparr>pts = Some (int t), decoded = [demo_frame]\<rparr>) [0..<12],
      seek_index = (\<lambda>t. Inr (nat t)), position = 0\<rparr>"

definition demo_env :: env where
  "demo_env =
     \<lparr>MINIAUDIO_INSTALLED = True, PYAV_INSTALLED = True, LZ4_INSTALLED = True,
      little_endian = True,
      compression_types = map_of
        [(''lz4'', BYTE_COMPRESSION), (''png'', IMAGE_COMPRESSION), (''jpeg'', IMAGE_COMPRESSION),
         (''apng'', IMAGE_COMPRESSION), (''mp3'', AUDIO_COMPRESSION), (''mp4'', VIDEO_COMPRESSION)],
      compressions = [None, Some ''lz4'', Some ''png'', Some ''jpeg'', Some ''apng'', Some ''mp3'',
                      Some ''mp4''],
      numcodecs_lz4_compress = (\<lambda>b. Inr (of_nat (length b) # 0 # 0 # 0 # b)),
      numcodecs_lz4_decompress =
        (\<lambda>b. if length b < 4 then Inl (CodecError ''corrupt input'') else Inr (drop 4 b)),
      lz4_frame_decompress =
        (\<lambda>b. if length b < 4 then Inl (CodecError ''corrupt input'') else Inr (drop 4 b)),
      Image_fromarray = (\<lambda>a. Inr (Image_of a)),
      Image_save = demo_save,
      Image_save_all = (\<lambda>frames. Inl (OSError ''no frames written'')),
      Image_open = demo_open,
      Image_open_frames = (\<lambda>b. Inl (CodecError ''cannot identify image file'')),
      Image_info = (\<lambda>b. Inl (CodecError ''cannot identify image file'')),
      Image_verify = (\<lambda>b. Inl (CodecError ''cannot identify image file'')),
      Image_raw_encode = (\<lambda>b. Inl (CodecError ''cannot identify image file'')),
      miniaudio_read = map_of
        [(''mp3_read_f32'',
          (\<lambda>src. case src of
                    Buffer (b # bs) \<Rightarrow> Inr \<lparr>samples = b # bs, num_frames = length (b # bs) div 4, nchannels = 1\<rparr>
                  | _ \<Rightarrow> Inl (CodecError ''could not decode'')))],
      miniaudio_info = map_of
        [(''mp3_get_info'',
          (\<lambda>src. case src of
                    Buffer (b # bs) \<Rightarrow> Inr (length (b # bs) div 4, 1)
                  | _ \<Rightarrow> Inl (CodecError ''could not decode'')))],
      av_open = (\<lambda>src. Inr demo_container)\<rparr>"

text \<open>Concrete inputs: two PNG headers, a JPEG stream that ends without the
  end-of-image marker, and two one-channel arrays.\<close>

definition png_gray16 :: bytes where
  "png_gray16 = [137, 80, 78, 71, 13, 10, 26, 10, 0, 0, 0, 13, 73, 72, 68, 82,
                 0, 0, 0, 5, 0, 0, 0, 7, 16, 0]"

definition png_rgb16 :: bytes where
  "png_rgb16 = [137, 80, 78, 71, 13, 10, 26, 10, 0, 0, 0, 13, 73, 72, 68, 82,
                0, 0, 0, 2, 0, 0, 0, 3, 16, 2]"

definition jpeg_no_eoi :: bytes where
  "jpeg_no_eoi = [0xFF, 0xD8,
                  0xFF, 0xC0, 0x00, 0x0B, 0x08, 0x00, 0x02, 0x00, 0x03, 0x03, 0x01, 0x02, 0x03,
                  0xFF, 0xDA, 0x00]"



text \<open>Two samples that differ in their trailing dimension, and an empty sample.\<close>

definition chan2 :: ndarray where
  "chan2 = \<lparr>shape = [1, 1, 2], dtype = uint8, data = [1, 2]\<rparr>"

definition chan3 :: ndarray where
  "chan3 = \<lparr>shape = [1, 1, 3], dtype = uint8, data = [3, 4, 5]\<rparr>"

definition empty_sample :: ndarray where
  "empty_sample = \<lparr>shape = [0, 2], dtype = uint8, data = []\<rparr>"






lemma demo_env_fields [simp]:
  "MINIAUDIO_INSTALLED demo_env" "PYAV_INSTALLED demo_env" "LZ4_INSTALLED demo_env"
  "little_endian demo_env"
  "compression_types demo_env = map_of
        [(''lz4'', BYTE_COMPRESSION), (''png'', IMAGE_COMPRESSION), (''jpeg'', IMAGE_COMPRESSION),
         (''apng'', IMAGE_COMPRESSION), (''mp3'', AUDIO_COMPRESSION), (''mp4'', VIDEO_COMPRESSION)]"
  "compressions demo_env = [None, Some ''lz4'', Some ''png'', Some ''jpeg'', Some ''apng'',
                            Some ''mp3'', Some ''mp4'']"
  "numcodecs_lz4_compress demo_env b = Inr (of_nat (length b) # 0 # 0 # 0 # b)"
  "numcodecs_lz4_decompress demo_env b =
     (if length b < 4 then Inl (CodecError ''corrupt input'') else Inr (drop 4 b))"
  "lz4_frame_decompress demo_env b =
     (if length b < 4 then Inl (CodecError ''corrupt input'') else Inr (drop 4 b))"
  "Image_fromarray demo_env a = Inr (Image_of a)"
  "Image_save demo_env = demo_save"
  "Image_open demo_env = demo_open"
  "av_open demo_env src = Inr demo_container"
  by (simp_all add: demo_env_def)

section \<open>Properties\<close>

subsection \<open>The byte codec\<close>

text \<open>
  C10. For every compression identifier, also one that is not a byte compression or
  is unknown, \<open>compress_bytes\<close> of the empty buffer is the empty byte string: the
  branch that raises SampleCompressionError is not reached.
\<close>

theorem compress_bytes_empty:
  "compress_bytes E [] compression = Inr [] \<and> \<not> isl (compress_bytes E [] compression)"
  by (simp add: compress_bytes_def)




subsection \<open>Optional dependencies\<close>

text \<open>
  C8. When miniaudio is not installed, \<open>decompress_audio\<close> and \<open>read_audio_shape\<close>
  fail with a ModuleNotFoundError that names Miniaudio, whatever the input; when PyAV
  is not installed, \<open>open_video\<close> fails with a ModuleNotFoundError that names PyAV.
\<close>

theorem optional_dependency_missing:
  "(\<not> MINIAUDIO_INSTALLED E \<longrightarrow>
      decompress_audio E file compression
        = Inl (ModuleNotFoundError ''Miniaudio is not installed. Run `pip install hub[audio]`.'') \<and>
      read_audio_shape E file compression
        = Inl (ModuleNotFoundError ''Miniaudio is not installed. Run `pip install hub[audio]`.'')) \<and>
   (\<not> PYAV_INSTALLED E \<longrightarrow>
      open_video E file = Inl (ModuleNotFoundError ''PyAV is not installed. Run `pip install hub[video]`.''))"
  by (simp add: decompress_audio_def read_audio_shape_def open_video_def
        miniaudio_missing_def pyav_missing_def)

theorem optional_dependency_missing_witness:
  "\<not> MINIAUDIO_INSTALLED (demo_env\<lparr>MINIAUDIO_INSTALLED := False, PYAV_INSTALLED := False\<rparr>) \<and>
   \<not> PYAV_INSTALLED (demo_env\<lparr>MINIAUDIO_INSTALLED := False, PYAV_INSTALLED := False\<rparr>) \<and>
   decompress_audio (demo_env\<lparr>MINIAUDIO_INSTALLED := False, PYAV_INSTALLED := False\<rparr>)
       (Buffer [1, 2, 3, 4]) (Some ''mp3'')
     = Inl (ModuleNotFoundError ''Miniaudio is not installed. Run `pip install hub[audio]`.'') \<and>
   read_audio_shape (demo_env\<lparr>MINIAUDIO_INSTALLED := False, PYAV_INSTALLED := False\<rparr>)
       (Buffer [1, 2, 3, 4]) (Some ''mp3'')
     = Inl (ModuleNotFoundError ''Miniaudio is not installed. Run `pip install hub[audio]`.'') \<and>
   open_video (demo_env\<lparr>MINIAUDIO_INSTALLED := False, PYAV_INSTALLED := False\<rparr>) (Path ''a.mp4'')
     = Inl (ModuleNotFoundError ''PyAV is not installed. Run `pip install hub[video]`.'')"
  using optional_dependency_missing
    [of "demo_env\<lparr>MINIAUDIO_INSTALLED := False, PYAV_INSTALLED := False\<rparr>" "Buffer [1, 2, 3, 4]"
        "Some ''mp3''"]
    optional_dependency_missing
    [of "demo_env\<lparr>MINIAUDIO_INSTALLED := False, PYAV_INSTALLED := False\<rparr>" "Path ''a.mp4''"
        "Some ''mp3''"]
  by simp

subsection \<open>Header fast paths\<close>

text \<open>
  C4, as the code has it. For a PNG byte stream of at least 26 bytes the fast path
  reads the width and the height as big-endian signed 32-bit fields at the byte
  offsets 16 and 20, the bit depth at offset 24 and the colour type at offset 25. The
  shape is (height, width) followed by the channel count of the colour type: none for
  0 and 3, 3 for 2, 2 for 4 at bit depth 8 and 4 for 4 otherwise, 4 for any other. The
  dtype follows the bit depth only for colour type 0 (boolean for 1, the native-endian
  4-byte integer for 16, 8-bit unsigned otherwise) and is 8-bit unsigned for every
  other colour type.
\<close>

theorem read_png_shape_and_dtype_header:
  assumes "26 \<le> length f"
  shows "read_png_shape_and_dtype E f =
     Inr ([sint (word_of_nat (be_nat (slice 20 24 f)) :: 32 word),
           sint (word_of_nat (be_nat (slice 16 20 f)) :: 32 word)]
          @ (if f ! 25 = 0 \<or> f ! 25 = 3 then []
             else if f ! 25 = 2 then [3]
             else if f ! 25 = 4 \<and> f ! 24 = 8 then [2]
             else [4]),
          if f ! 25 = 0 \<and> f ! 24 = 1 then ''|b1''
          else if f ! 25 = 0 \<and> f ! 24 = 16 then (if little_endian E then ''<i4'' else ''>i4'')
          else ''|u1'')"
proof -
  from assms have a: "slice 0 4 (slice 16 24 f) = slice 16 20 f"
    and b: "slice 4 8 (slice 16 24 f) = slice 20 24 f"
    and c: "length (slice 16 24 f) = 8" and d: "length (slice 24 26 f) = 2"
    by (simp_all add: slice_def drop_take)
  show ?thesis
    by (simp add: read_png_shape_and_dtype_def unpack_ii_def a b c d Let_def NATIVE_INT32_def)
qed

theorem read_png_shape_and_dtype_header_witness:
  "26 \<le> length png_gray16 \<and>
   read_png_shape_and_dtype demo_env png_gray16 = Inr ([7, 5], ''<i4'')"
  using read_png_shape_and_dtype_header [of png_gray16 demo_env]
  by (simp add: png_gray16_def slice_def be_nat_def)

theorem read_png_shape_and_dtype_counterexample:
  "png_rgb16 ! 24 = 16 \<and> png_rgb16 ! 25 = 2 \<and> NATIVE_INT32 demo_env = ''<i4'' \<and>
   read_png_shape_and_dtype demo_env png_rgb16 = Inr ([3, 2, 3], ''|u1'')"
  by (simp add: read_png_shape_and_dtype_def png_rgb16_def unpack_ii_def slice_def be_nat_def
        Let_def NATIVE_INT32_def)

text \<open>
  C5, as the code has it. A JPEG byte stream without an end-of-image marker is
  rejected by the verification path: \<open>verify_jpeg_buffer\<close> fails, and
  \<open>verify_compressed_file\<close> reports CorruptedSampleError for jpeg. The metadata fast
  path of \<open>read_meta_from_compressed_file\<close> does not look for the marker.
\<close>

theorem verify_jpeg_requires_eoi:
  assumes "\<not> bytes_contains buf [0xFF, 0xD9]"
  shows "(\<exists>e. verify_jpeg_buffer buf = Inl e) \<and>
         verify_compressed_file E buf ''jpeg'' = Inl (CorruptedSampleError (Some ''jpeg''))"
proof -
  have "\<exists>e. verify_jpeg_buffer buf = Inl e"
    using assms
    by (simp add: verify_jpeg_buffer_def Let_def split: option.split sum.split)
  then show ?thesis
    by (auto simp: verify_compressed_file_def wrap_corrupted_def with_typestr_def)
qed

theorem verify_jpeg_requires_eoi_witness:
  "\<not> bytes_contains jpeg_no_eoi [0xFF, 0xD9] \<and>
   verify_compressed_file demo_env jpeg_no_eoi ''jpeg'' = Inl (CorruptedSampleError (Some ''jpeg'')) \<and>
   verify_jpeg_buffer (jpeg_no_eoi @ [0xFF, 0xD9]) = Inr [2, 3, 3]"
proof -
  have a: "\<not> bytes_contains jpeg_no_eoi [0xFF, 0xD9]" by code_simp
  have b: "verify_jpeg_buffer (jpeg_no_eoi @ [0xFF, 0xD9]) = Inr [2, 3, 3]" by code_simp
  from verify_jpeg_requires_eoi [OF a, of demo_env] a b show ?thesis by simp
qed

theorem read_meta_jpeg_counterexample:
  "\<not> bytes_contains jpeg_no_eoi [0xFF, 0xD9] \<and>
   read_meta_from_compressed_file demo_env jpeg_no_eoi ''jpeg'' = Inr (''jpeg'', [2, 3, 3], ''|u1'')"
proof -
  have a: "\<not> bytes_contains jpeg_no_eoi [0xFF, 0xD9]" by code_simp
  have b: "read_meta_from_compressed_file demo_env jpeg_no_eoi ''jpeg''
             = Inr (''jpeg'', [2, 3, 3], ''|u1'')" by code_simp
  from a b show ?thesis by simp
qed

subsection \<open>Compressing and decompressing one sample\<close>




text \<open>
  C1, as the code has it. An array with a zero-sized dimension compresses to the
  empty byte string under every identifier. Given a target shape with a zero-sized
  dimension, \<open>decompress_array\<close> returns the zero-filled array of that shape without
  calling a codec for a byte compression (on the empty blob, with a dtype of non-zero
  item size), for an image identifier other than apng and for no identifier. For apng,
  audio and video identifiers it hands the blob to the decoder of that format.
\<close>

theorem empty_sample_short_circuit:
  assumes "0 \<in> set (shape array)" and "0 \<in> set shp"
  shows "compress_array E array compression = Inr [] \<and>
    (get_compression_type E compression = Inr BYTE_COMPRESSION \<and> itemsize d \<noteq> 0 \<longrightarrow>
       decompress_array E (Buffer []) (Some shp) (Some d) compression start_idx end_idx step reverse
         = Inr (np_zeros shp (Some d))) \<and>
    ((get_compression_type E compression = Inr IMAGE_COMPRESSION \<or>
      get_compression_type E compression = Inr NO_COMPRESSION) \<and> compression \<noteq> Some ''apng'' \<longrightarrow>
       decompress_array E buffer (Some shp) dt compression start_idx end_idx step reverse
         = Inr (np_zeros shp dt)) \<and>
    (get_compression_type E compression = Inr IMAGE_COMPRESSION \<and> compression = Some ''apng'' \<longrightarrow>
       decompress_array E buffer (Some shp) dt compression start_idx end_idx step reverse
         = decompress_apng E buffer) \<and>
    (get_compression_type E compression = Inr AUDIO_COMPRESSION \<longrightarrow>
       decompress_array E buffer (Some shp) dt compression start_idx end_idx step reverse
         = decompress_audio E buffer compression) \<and>
    (get_compression_type E compression = Inr VIDEO_COMPRESSION \<longrightarrow>
       decompress_array E buffer (Some shp) dt compression start_idx end_idx step reverse
         = decompress_video E buffer start_idx end_idx step reverse)"
proof -
  from assms(2) have z: "prod_list shp = 0" by (simp add: prod_list_zero_iff)
  have c: "compress_array E array compression = Inr []"
    using assms(1) by (simp add: compress_array_def)
  have b: "itemsize d \<noteq> 0 \<Longrightarrow> frombuffer_reshape [] d shp = Inr (np_zeros shp (Some d))"
    using z by (simp add: frombuffer_reshape_def np_zeros_def)
  show ?thesis
    using c b assms(2)
    by (auto simp: decompress_array_def decompress_bytes_def wrap_decompression_error_def)
qed

theorem empty_sample_short_circuit_witness:
  "0 \<in> set (shape empty_sample) \<and>
   compress_array demo_env empty_sample (Some ''lz4'') = Inr [] \<and>
   decompress_array demo_env (Buffer []) (Some [0, 2]) (Some uint8) (Some ''lz4'') None None None False
     = Inr empty_sample \<and>
   compress_array demo_env empty_sample (Some ''png'') = Inr [] \<and>
   decompress_array demo_env (Buffer []) (Some [0, 2]) (Some uint8) (Some ''png'') None None None False
     = Inr empty_sample"
  using empty_sample_short_circuit [where array = empty_sample and shp = "[0, 2]" and E = demo_env
      and compression = "Some ''lz4''" and d = uint8 and start_idx = None and end_idx = None
      and step = None and reverse = False and buffer = "Buffer []" and dt = "Some uint8"]
    empty_sample_short_circuit [where array = empty_sample and shp = "[0, 2]" and E = demo_env
      and compression = "Some ''png''" and d = uint8 and start_idx = None and end_idx = None
      and step = None and reverse = False and buffer = "Buffer []" and dt = "Some uint8"]
  by (simp add: empty_sample_def get_compression_type_def uint8_def np_zeros_def)

theorem empty_sample_counterexample:
  "0 \<in> set (shape empty_sample) \<and>
   compress_array demo_env empty_sample (Some ''mp3'') = Inr [] \<and>
   decompress_array demo_env (Buffer []) (Some [0, 2]) (Some uint8) (Some ''mp3'') None None None False
     = Inl (CodecError ''could not decode'')"
  by (simp add: empty_sample_def compress_array_def decompress_array_def get_compression_type_def
        decompress_audio_def audio_function_name_def demo_env_def)

subsection \<open>Decoding a range of video frames\<close>

text \<open>
  C6. On a source of twelve packets of one frame each, the window that starts and
  stops at frame 10 should give an array of no frames; the loop writes the first frame
  it meets into \<open>video[0]\<close> of that array and fails with IndexError, since
  \<^verbatim>\<open>if i == nframes: break\<close> is only reached after a frame has been stored. A window
  that is not empty (start 2, stop 8, step 2) gives its three frames.
\<close>

theorem decompress_video_empty_window:
  "decompress_video demo_env (Path ''v.mp4'') (Some 10) (Some 10) (Some 1) False
     = Inl (IndexError ''index is out of bounds for axis 0'') \<and>
   decompress_video demo_env (Path ''v.mp4'') (Some 2) (Some 8) (Some 2) False
     = Inr \<lparr>shape = [3, 1, 1, 3], dtype = uint8, data = [7, 8, 9, 7, 8, 9, 7, 8, 9]\<rparr>"
proof -
  have a: "decompress_video demo_env (Path ''v.mp4'') (Some 10) (Some 10) (Some 1) False
     = Inl (IndexError ''index is out of bounds for axis 0'')" by code_simp
  have b: "decompress_video demo_env (Path ''v.mp4'') (Some 2) (Some 8) (Some 2) False
     = Inr \<lparr>shape = [3, 1, 1, 3], dtype = uint8, data = [7, 8, 9, 7, 8, 9, 7, 8, 9]\<rparr>" by code_simp
  from a b show ?thesis by simp
qed

subsection \<open>The tiler\<close>

text \<open>
  C7, as the code has it. When two samples disagree on dtype, \<open>compress_multiple\<close>
  fails with SampleCompressionError under every identifier. When all samples share
  the dtype and two disagree on a trailing dimension beyond the first two axes, it
  fails with a ValueError, not a SampleCompressionError, for an image identifier other
  than apng (and for no identifier); for a byte compression it does not look at the
  shapes and compresses the concatenated buffers.
\<close>

theorem compress_multiple_mismatch:
  assumes "a \<in> set arrays" and "b \<in> set arrays"
  shows "(dtype a \<noteq> dtype b \<longrightarrow>
            (\<exists>shp. compress_multiple E arrays compression
               = Inl (SampleCompressionError shp compression ''All arrays expected to have same dtype.''))) \<and>
         ((\<forall>x\<in>set arrays. dtype x = dtype (hd arrays)) \<and> drop 2 (shape a) \<noteq> drop 2 (shape b) \<and>
          (get_compression_type E compression = Inr IMAGE_COMPRESSION \<or>
           get_compression_type E compression = Inr NO_COMPRESSION) \<and>
          compression \<noteq> Some ''apng'' \<longrightarrow>
            compress_multiple E arrays compression
              = Inl (ValueError ''The data can't be compressed as the number of channels doesn't match.'')) \<and>
         ((\<forall>x\<in>set arrays. dtype x = dtype (hd arrays)) \<and>
          get_compression_type E compression = Inr BYTE_COMPRESSION \<longrightarrow>
            compress_multiple E arrays compression
              = compress_bytes E (concat (map tobytes arrays)) compression)"
proof -
  from assms have ne: "arrays \<noteq> []" by auto
  have uniform: "find (\<lambda>arr. dtype arr \<noteq> dtype (hd arrays)) arrays = None"
    if "\<forall>x\<in>set arrays. dtype x = dtype (hd arrays)"
    using that by (simp add: find_None_iff)
  have p1: "\<exists>shp. compress_multiple E arrays compression
               = Inl (SampleCompressionError shp compression ''All arrays expected to have same dtype.'')"
    if "dtype a \<noteq> dtype b"
  proof -
    from that assms have "\<exists>x. x \<in> set arrays \<and> dtype x \<noteq> dtype (hd arrays)" by metis
    then have "find (\<lambda>arr. dtype arr \<noteq> dtype (hd arrays)) arrays \<noteq> None"
      by (simp add: find_None_iff)
    then obtain x where "find (\<lambda>arr. dtype arr \<noteq> dtype (hd arrays)) arrays = Some x" by auto
    with ne show ?thesis by (simp add: compress_multiple_def)
  qed
  have p2: "compress_multiple E arrays compression = Inl channels_mismatch"
    if u: "\<forall>x\<in>set arrays. dtype x = dtype (hd arrays)"
      and m: "drop 2 (shape a) \<noteq> drop 2 (shape b)"
      and t: "get_compression_type E compression = Inr IMAGE_COMPRESSION \<or>
              get_compression_type E compression = Inr NO_COMPRESSION"
      and c: "compression \<noteq> Some ''apng''"
  proof -
    from m assms have "\<exists>x. x \<in> set arrays \<and> drop 2 (shape x) \<noteq> drop 2 (shape (hd arrays))"
      by metis
    then have "list_ex (\<lambda>shp. drop 2 shp \<noteq> drop 2 (hd (map shape arrays))) (map shape arrays)"
      using ne by (auto simp: list_ex_iff hd_map)
    then have "get_bounding_shape (map shape arrays) = Inl channels_mismatch"
      using ne by (simp add: get_bounding_shape_def Let_def)
    with ne uniform [OF u] t c show ?thesis
      by (auto simp: compress_multiple_def)
  qed
  have p3: "compress_multiple E arrays compression
              = compress_bytes E (concat (map tobytes arrays)) compression"
    if u: "\<forall>x\<in>set arrays. dtype x = dtype (hd arrays)"
      and t: "get_compression_type E compression = Inr BYTE_COMPRESSION"
    using ne uniform [OF u] t by (simp add: compress_multiple_def)
  from p1 p2 p3 show ?thesis by (simp add: channels_mismatch_def)
qed

theorem compress_multiple_mismatch_witness:
  "(\<exists>shp. compress_multiple demo_env [chan2, chan2\<lparr>dtype := float64\<rparr>] (Some ''png'')
      = Inl (SampleCompressionError shp (Some ''png'') ''All arrays expected to have same dtype.'')) \<and>
   compress_multiple demo_env [chan2, chan3] (Some ''png'')
     = Inl (ValueError ''The data can't be compressed as the number of channels doesn't match.'') \<and>
   compress_multiple demo_env [chan2, chan3] (Some ''lz4'') = Inr [5, 0, 0, 0, 1, 2, 3, 4, 5]"
  using compress_multiple_mismatch [of chan2 "[chan2, chan2\<lparr>dtype := float64\<rparr>]"
          "chan2\<lparr>dtype := float64\<rparr>" demo_env "Some ''png''"]
    compress_multiple_mismatch [of chan2 "[chan2, chan3]" chan3 demo_env "Some ''png''"]
    compress_multiple_mismatch [of chan2 "[chan2, chan3]" chan3 demo_env "Some ''lz4''"]
  by (simp add: chan2_def chan3_def get_compression_type_def uint8_def float64_def
        compress_bytes_def tobytes_def)

theorem compress_multiple_mismatch_counterexample:
  "drop 2 (shape chan2) \<noteq> drop 2 (shape chan3) \<and> dtype chan2 = dtype chan3 \<and>
   compress_multiple demo_env [chan2, chan3] (Some ''png'')
     = Inl (ValueError ''The data can't be compressed as the number of channels doesn't match.'') \<and>
   compress_multiple demo_env [chan2, chan3] (Some ''lz4'') = Inr [5, 0, 0, 0, 1, 2, 3, 4, 5]"
  by (simp add: chan2_def chan3_def compress_multiple_def get_compression_type_def
        get_bounding_shape_def channels_mismatch_def compress_bytes_def tobytes_def)


text \<open>Rows of a buffer, and writing into and reading from them.\<close>

lemma length_rows_of [simp]: "length (rows_of h n xs) = h"
  by (simp add: rows_of_def)





lemma length_put_rows [simp]: "length (put_rows off news rows) = length rows"
  by (induction off news rows rule: put_rows.induct) auto






















subsection \<open>Frame windows that are not empty\<close>

text \<open>
  The reverse flag only flips the finished array: with the flag set,
  \<open>decompress_video\<close> gives the result without the flag, flipped along the frame
  axis, and the same error where that fails.
\<close>

lemma demux_loop_shape:
  "demux_loop sk step_time nframes st = Inr st' \<Longrightarrow> shape (video st') = shape (video st)"
proof (induction sk step_time nframes st rule: demux_loop.induct)
  case (1 sk step_time nframes st)
  show ?case
  proof (cases "length (packets (cont st)) \<le> position (cont st)")
    case True
    with "1.prems" show ?thesis by (simp add: demux_loop.simps [of sk step_time nframes st])
  next
    case False
    define p where "p = packets (cont st) ! position (cont st)"
    define st0 where "st0 = st\<lparr>cont := (cont st)\<lparr>position := position (cont st) + 1\<rparr>\<rparr>"
    from False "1.prems" obtain st1 where
      d: "decode_frames sk step_time (pts p) (decoded p) st0 = Inr st1"
      and r: "(if int (idx st1) = nframes then Inr st1 else demux_loop sk step_time nframes st1) = Inr st'"
      by (auto simp: demux_loop.simps [of sk step_time nframes st] Let_def p_def st0_def
          split: sum.splits)
    from decode_frames_progress [OF d] have s1: "shape (video st1) = shape (video st)"
      by (simp add: st0_def)
    show ?thesis
    proof (cases "int (idx st1) = nframes")
      case True
      with r s1 show ?thesis by simp
    next
      case neq: False
      with r have "demux_loop sk step_time nframes st1 = Inr st'" by simp
      from "1.IH" [OF False p_def st0_def d neq this] s1 show ?thesis by simp
    qed
  qed
qed

lemma shape_flip_frames [simp]: "shape (flip_frames v) = shape v"
  by (simp add: flip_frames_def Let_def)

theorem decompress_video_reverse:
  "decompress_video E file start stop step True =
     (case decompress_video E file start stop step False of
        Inl e \<Rightarrow> Inl e
      | Inr v \<Rightarrow> Inr (flip_frames v))"
  by (simp add: decompress_video_def Let_def split: sum.split prod.split)

theorem decompress_video_reverse_witness:
  "decompress_video demo_env (Path ''v.mp4'') (Some 2) (Some 4) (Some 1) True
     = Inr (flip_frames \<lparr>shape = [2, 1, 1, 3], dtype = uint8, data = [7, 8, 9, 7, 8, 9]\<rparr>)"
proof -
  have "decompress_video demo_env (Path ''v.mp4'') (Some 2) (Some 4) (Some 1) False
     = Inr \<lparr>shape = [2, 1, 1, 3], dtype = uint8, data = [7, 8, 9, 7, 8, 9]\<rparr>" by code_simp
  with decompress_video_reverse [of demo_env "Path ''v.mp4''" "Some 2" "Some 4" "Some 1"]
  show ?thesis by simp
qed

text \<open>
  On a source whose seeks succeed and whose packets decode to at most one frame of the
  stream's size, a window with \<open>start < stop\<close> and a positive step is decoded
  without error into an array of exactly \<open>ceil((stop - start) / step)\<close> frames.
\<close>

lemma seek_succeeds:
  "\<forall>t. \<exists>j. seek_index c t = Inr j \<Longrightarrow>
     \<exists>c'. seek c t = Inr c' \<and> packets c' = packets c \<and> seek_index c' = seek_index c"
proof -
  assume "\<forall>t. \<exists>j. seek_index c t = Inr j"
  then obtain j where "seek_index c t = Inr j" by blast
  then show ?thesis by (simp add: seek_def)
qed

lemma decode_frames_single:
  "decode_frames sk step_time p [f] st =
     (if (case p of None \<Rightarrow> False | Some t \<Rightarrow> t \<noteq> 0 \<and> seek_target st \<le> t) then
        (case setitem_frame (video st) (idx st) f of
           Inl e \<Rightarrow> Inl e
         | Inr v \<Rightarrow>
             if sk then
               (case seek (cont st) (seek_target st + step_time) of
                  Inl e \<Rightarrow> Inl e
                | Inr c \<Rightarrow> Inr (st\<lparr>video := v, idx := idx st + 1,
                                   seek_target := seek_target st + step_time, cont := c\<rparr>))
             else Inr (st\<lparr>video := v, idx := idx st + 1, seek_target := seek_target st + step_time\<rparr>))
      else Inr st)"
  by (simp add: Let_def split: sum.split)

lemma decode_frames_one:
  assumes "length frames \<le> 1" and "\<forall>f\<in>set frames. shape f = tl (shape (video st))"
    and "shape (video st) \<noteq> []" and "idx st < hd (shape (video st))"
    and "\<forall>t. \<exists>j. seek_index (cont st) t = Inr j"
  shows "\<exists>st'. decode_frames sk step_time p frames st = Inr st' \<and>
           seek_index (cont st') = seek_index (cont st)"
proof (cases frames)
  case Nil
  then show ?thesis by simp
next
  case (Cons f fs)
  with assms(1) have fs: "frames = [f]" by simp
  from assms(2) fs have sf: "shape f = tl (shape (video st))" by simp
  from assms(4) have "\<not> hd (shape (video st)) \<le> idx st" by simp
  with assms(3) sf have "\<exists>v. setitem_frame (video st) (idx st) f = Inr v"
    by (simp add: setitem_frame_def Let_def)
  then obtain v where v: "setitem_frame (video st) (idx st) f = Inr v" ..
  from seek_succeeds [OF assms(5), of "seek_target st + step_time"]
  obtain c' where c': "seek (cont st) (seek_target st + step_time) = Inr c'"
    "seek_index c' = seek_index (cont st)" by blast
  show ?thesis
    unfolding fs decode_frames_single by (simp add: v c')
qed

lemma demux_loop_succeeds:
  assumes "shape (video st) = n # fshape" and "nframes = int n" and "idx st < n"
    and "\<forall>t. \<exists>j. seek_index (cont st) t = Inr j"
    and "\<forall>p\<in>set (packets (cont st)). length (decoded p) \<le> 1 \<and> (\<forall>f\<in>set (decoded p). shape f = fshape)"
  shows "\<exists>st'. demux_loop sk step_time nframes st = Inr st'"
  using assms
proof (induction sk step_time nframes st rule: demux_loop.induct)
  case (1 sk step_time nframes st)
  show ?case
  proof (cases "length (packets (cont st)) \<le> position (cont st)")
    case True
    then show ?thesis by (simp add: demux_loop.simps [of sk step_time nframes st])
  next
    case False
    define p where "p = packets (cont st) ! position (cont st)"
    define st0 where "st0 = st\<lparr>cont := (cont st)\<lparr>position := position (cont st) + 1\<rparr>\<rparr>"
    from False have "p \<in> set (packets (cont st))" by (simp add: p_def)
    with "1.prems"(5) have p: "length (decoded p) \<le> 1" "\<forall>f\<in>set (decoded p). shape f = fshape"
      by auto
    have "\<exists>st1. decode_frames sk step_time (pts p) (decoded p) st0 = Inr st1 \<and>
           seek_index (cont st1) = seek_index (cont st0)"
      using "1.prems"(1,3,4) p by (intro decode_frames_one) (simp_all add: st0_def)
    then obtain st1 where d: "decode_frames sk step_time (pts p) (decoded p) st0 = Inr st1"
      and si: "seek_index (cont st1) = seek_index (cont st)" by (auto simp: st0_def)
    from decode_frames_progress [OF d] "1.prems"(1,3)
    have inv: "shape (video st1) = n # fshape" "packets (cont st1) = packets (cont st)"
      "idx st1 \<le> n"
      by (auto simp: st0_def)
    show ?thesis
    proof (cases "int (idx st1) = nframes")
      case True
      with False d show ?thesis
        by (simp add: demux_loop.simps [of sk step_time nframes st] Let_def p_def st0_def)
    next
      case neq: False
      with inv(3) "1.prems"(2) have lt: "idx st1 < n" by simp
      from "1.IH" [OF False p_def st0_def d neq inv(1) "1.prems"(2) lt] si inv(2) "1.prems"(4,5)
      obtain st' where "demux_loop sk step_time nframes st1 = Inr st'" by auto
      with False d neq show ?thesis
        by (simp add: demux_loop.simps [of sk step_time nframes st] Let_def p_def st0_def)
    qed
  qed
qed

theorem decompress_video_window:
  assumes "open_video E file = Inr (c, vs)"
    and "read_metadata_from_vstream c vs = Inr ((nf, h, w, ch), meta)"
    and "frame_to_stamp start vs = Inr target" and "frame_to_stamp step vs = Inr step_time"
    and "0 < step" and "start < stop"
    and "\<forall>t. \<exists>j. seek_index c t = Inr j"
    and "\<forall>p\<in>set (packets c). length (decoded p) \<le> 1 \<and> (\<forall>f\<in>set (decoded p). shape f = [h, w, 3])"
  shows "\<exists>v. decompress_video E file (Some start) (Some stop) (Some step) reverse = Inr v \<and>
           shape v = [nat \<lceil>rat_of_int (stop - start) / rat_of_int step\<rceil>, h, w, 3]"
proof -
  define n where "n = \<lceil>rat_of_int (stop - start) / rat_of_int step\<rceil>"
  from assms(5,6) have "0 < rat_of_int (stop - start) / rat_of_int step" by simp
  then have pos: "0 < n" unfolding n_def by (simp only: zero_less_ceiling)
  from seek_succeeds [OF assms(7), of target]
  obtain c' where c': "seek c target = Inr c'" "packets c' = packets c"
    "seek_index c' = seek_index c" by blast
  let ?st = "\<lparr>video = np_zeros [nat n, h, w, 3] (Some uint8), idx = 0, seek_target = target, cont = c'\<rparr>"
  have "\<exists>st'. demux_loop (gop_size vs < step \<and> True) step_time n ?st = Inr st'"
    using pos c' assms(7,8)
    by (intro demux_loop_succeeds [where n = "nat n" and fshape = "[h, w, 3]"])
       (simp_all add: np_zeros_def)
  then obtain st' where loop: "demux_loop (gop_size vs < step \<and> True) step_time n ?st = Inr st'"
    by blast
  have "decompress_video E file (Some start) (Some stop) (Some step) reverse
          = Inr (if reverse then flip_frames (video st') else video st')"
    using assms(1-5) pos c'(1) loop
    by (simp add: decompress_video_def Let_def n_def)
  moreover from demux_loop_shape [OF loop] have "shape (video st') = [nat n, h, w, 3]"
    by (simp add: np_zeros_def)
  ultimately show ?thesis by (simp add: n_def)
qed

theorem decompress_video_window_witness:
  "open_video demo_env (Path ''v.mp4'') = Inr (demo_container, demo_stream) \<and>
   frame_to_stamp 2 demo_stream = Inr 2 \<and>
   (\<exists>v. decompress_video demo_env (Path ''v.mp4'') (Some 2) (Some 8) (Some 2) True = Inr v \<and>
        shape v = [3, 1, 1, 3])"
proof -
  have o: "open_video demo_env (Path ''v.mp4'') = Inr (demo_container, demo_stream)"
    by (simp add: open_video_def demo_container_def)
  have m: "read_metadata_from_vstream demo_container demo_stream = Inr ((12, 1, 1, 3), 12, 1, 1)"
    by (simp add: read_metadata_from_vstream_def demo_stream_def Let_def)
  have s: "frame_to_stamp 2 demo_stream = Inr 2"
    by (simp add: frame_to_stamp_def demo_stream_def Let_def)
  have k: "\<forall>t. \<exists>j. seek_index demo_container t = Inr j"
    by (simp add: demo_container_def)
  have p: "\<forall>p\<in>set (packets demo_container).
             length (decoded p) \<le> 1 \<and> (\<forall>f\<in>set (decoded p). shape f = [1, 1, 3])"
    by (simp add: demo_container_def demo_frame_def)
  have n: "nat \<lceil>rat_of_int (8 - 2) / rat_of_int 2\<rceil> = 3"
    by simp
  from decompress_video_window [OF o m s s _ _ k p, of 8 True] n o s
  show ?thesis by simp
qed

end
